theory Spec2Isabelle
  imports Complex_Main
begin

section \<open>Strings of the host language\<close>

text \<open>
  Utterances are modelled as \<^typ>\<open>string\<close>, that is, lists of 8-bit characters read as
  Latin-1 code units. All keywords and patterns of \<^verbatim>\<open>src/utils/nlp.ts\<close> are ASCII
  except the euro sign of the price patterns (see below).
\<close>

definition isWhiteSpace :: "char \<Rightarrow> bool" where
  \<comment> \<open>white space and line terminators below U+0100: TAB, LF, VT, FF, CR, SP, NBSP\<close>
  "isWhiteSpace c = (of_char c \<in> {9, 10, 11, 12, 13, 32, 160 :: nat})"

definition isDigit :: "char \<Rightarrow> bool" where
  "isDigit c = (c \<in> set ''0123456789'')"

definition lowerChar :: "char \<Rightarrow> char" where
  \<comment> \<open>\<^verbatim>\<open>A\<close>..\<^verbatim>\<open>Z\<close> and the Latin-1 capitals U+00C0..U+00DE (without U+00D7) move up by 32 (bit 5 is set)\<close>
  "lowerChar c =
     (let n = (of_char c :: nat)
      in if (65 \<le> n \<and> n \<le> 90) \<or> (192 \<le> n \<and> n \<le> 222 \<and> n \<noteq> 215)
         then (case c of Char b0 b1 b2 b3 b4 b5 b6 b7 \<Rightarrow> Char b0 b1 b2 b3 b4 True b6 b7)
         else c)"

definition toLowerCase :: "string \<Rightarrow> string" where
  "toLowerCase s = map lowerChar s"

definition trim :: "string \<Rightarrow> string" where
  "trim s = rev (dropWhile isWhiteSpace (rev (dropWhile isWhiteSpace s)))"

fun startsWith :: "string \<Rightarrow> string \<Rightarrow> bool" where
  "startsWith s [] = True"
| "startsWith [] (k # ks) = False"
| "startsWith (c # cs) (k # ks) = (c = k \<and> startsWith cs ks)"

text \<open>\<^verbatim>\<open>text.includes(keyword)\<close>: the keyword occurs as a contiguous substring.\<close>

fun str_includes :: "string \<Rightarrow> string \<Rightarrow> bool" where
  "str_includes [] k = (k = [])"
| "str_includes (c # cs) k = (startsWith (c # cs) k \<or> str_includes cs k)"


section \<open>Regular expressions\<close>

text \<open>
  The patterns of \<^verbatim>\<open>nlp.ts\<close> use literal characters, \<^verbatim>\<open>\d\<close>, \<^verbatim>\<open>\s\<close>, sequencing,
  ordered alternation, the greedy quantifiers \<^verbatim>\<open>*\<close>, \<^verbatim>\<open>+\<close>, \<^verbatim>\<open>?\<close>, \<^verbatim>\<open>{n}\<close>, and
  capturing groups. \<open>NoChar\<close> stands for a literal character outside the 8-bit range
  (the euro sign U+20AC): it matches no character of a \<^typ>\<open>string\<close>.
\<close>

datatype regex =
    Eps
  | Lit char
  | NoChar
  | Digit
  | Space
  | Seq regex regex
  | Alt regex regex
  | Star regex
  | Opt regex
  | Rep nat regex
  | Grp nat regex

type_synonym captures = "nat \<Rightarrow> string option"

text \<open>
  A matcher state is the rest of the input with the captures so far. \<open>rx_run r\<close> lists
  the states after every way \<open>r\<close> can match a prefix of the input, in the order in which
  a backtracking matcher tries them: left alternative first, longest repetition first.
  The patterns carry the flag \<^verbatim>\<open>i\<close>, so literals are compared without case.
\<close>

type_synonym mstate = "string \<times> captures"

text \<open>
  One more round of a greedy repetition with at least 0 rounds: a round that consumes
  nothing is rejected, so each round shortens the input and \<open>n\<close> rounds suffice for
  an input of length \<open>n\<close>.
\<close>

primrec star_rounds :: "(mstate \<Rightarrow> mstate list) \<Rightarrow> nat \<Rightarrow> mstate \<Rightarrow> mstate list" where
  "star_rounds f 0 st = [st]"
| "star_rounds f (Suc n) st =
     concat (map (\<lambda>st'. if length (fst st') < length (fst st) then star_rounds f n st' else [])
                 (f st)) @ [st]"

primrec rep_rounds :: "(mstate \<Rightarrow> mstate list) \<Rightarrow> nat \<Rightarrow> mstate \<Rightarrow> mstate list" where
  "rep_rounds f 0 st = [st]"
| "rep_rounds f (Suc n) st = concat (map (rep_rounds f n) (f st))"

primrec rx_run :: "regex \<Rightarrow> mstate \<Rightarrow> mstate list" where
  "rx_run Eps st = [st]"
| "rx_run (Lit k) st =
     (case fst st of [] \<Rightarrow> []
      | c # cs \<Rightarrow> if lowerChar c = lowerChar k then [(cs, snd st)] else [])"
| "rx_run NoChar st = []"
| "rx_run Digit st =
     (case fst st of [] \<Rightarrow> [] | c # cs \<Rightarrow> if isDigit c then [(cs, snd st)] else [])"
| "rx_run Space st =
     (case fst st of [] \<Rightarrow> [] | c # cs \<Rightarrow> if isWhiteSpace c then [(cs, snd st)] else [])"
| "rx_run (Seq r1 r2) st = concat (map (rx_run r2) (rx_run r1 st))"
| "rx_run (Alt r1 r2) st = rx_run r1 st @ rx_run r2 st"
| "rx_run (Star r) st = star_rounds (rx_run r) (length (fst st)) st"
| "rx_run (Opt r) st =
     filter (\<lambda>st'. length (fst st') < length (fst st)) (rx_run r st) @ [st]"
| "rx_run (Rep n r) st = rep_rounds (rx_run r) n st"
| "rx_run (Grp i r) st =
     map (\<lambda>st'. (fst st', (snd st')(i \<mapsto> take (length (fst st) - length (fst st')) (fst st))))
         (rx_run r st)"

text \<open>
  \<^verbatim>\<open>text.match(pattern)\<close> without the flag \<^verbatim>\<open>g\<close>: the first start position at which
  the pattern matches, and there the first way it matches; the result is the captures
  (\<^verbatim>\<open>match[1]\<close>, \<^verbatim>\<open>match[2]\<close>; a group that took no part is \<open>None\<close>), or \<open>None\<close> for
  \<^verbatim>\<open>null\<close>.
\<close>

fun str_match :: "string \<Rightarrow> regex \<Rightarrow> captures option" where
  "str_match s r =
     (case rx_run r (s, Map.empty) of
        st # _ \<Rightarrow> Some (snd st)
      | [] \<Rightarrow> (case s of [] \<Rightarrow> None | _ # cs \<Rightarrow> str_match cs r))"

fun lits :: "string \<Rightarrow> regex" where
  "lits [] = Eps"
| "lits [c] = Lit c"
| "lits (c # cs) = Seq (Lit c) (lits cs)"

fun alts :: "regex list \<Rightarrow> regex" where
  "alts [] = NoChar"
| "alts [r] = r"
| "alts (r # rs) = Alt r (alts rs)"

fun seqs :: "regex list \<Rightarrow> regex" where
  "seqs [] = Eps"
| "seqs [r] = r"
| "seqs (r # rs) = Seq r (seqs rs)"

definition Plus :: "regex \<Rightarrow> regex" where
  "Plus r = Seq r (Star r)"

definition words :: "string list \<Rightarrow> regex" where
  \<comment> \<open>a non-capturing group of literal alternatives, \<^verbatim>\<open>(?:under|less than|below)\<close>\<close>
  "words ws = alts (map lits ws)"


section \<open>The lexicon and the patterns of \<^verbatim>\<open>nlp.ts\<close>\<close>

text \<open>
  \<^verbatim>\<open>KEYWORD_MAPPINGS\<close>: each category is an object literal whose keys are no array
  indices, so \<^verbatim>\<open>Object.entries\<close> lists it in the order in which it is written. An
  association list keeps that order.
\<close>

definition KEYWORD_makes :: "(string \<times> string) list" where
  "KEYWORD_makes =
    [(''volkswagen'', ''Volkswagen''), (''vw'', ''Volkswagen''), (''bmw'', ''BMW''),
     (''mercedes'', ''Mercedes''), (''benz'', ''Mercedes''), (''audi'', ''Audi''),
     (''toyota'', ''Toyota''), (''ford'', ''Ford''), (''porsche'', ''Porsche''),
     (''tesla'', ''Tesla''), (''lamborghini'', ''Lamborghini''), (''ferrari'', ''Ferrari'')]"

definition KEYWORD_vehicleTypes :: "(string \<times> string) list" where
  "KEYWORD_vehicleTypes =
    [(''suv'', ''suv''), (''sports utility vehicle'', ''suv''), (''off-road'', ''suv''),
     (''pickup'', ''suv''), (''saloon'', ''saloon''), (''sedan'', ''saloon''),
     (''coupe'', ''sports-coupe''), (''sports car'', ''sports-coupe''),
     (''estate'', ''estate''), (''wagon'', ''estate''), (''small car'', ''small-car''),
     (''hatchback'', ''small-car''), (''cabriolet'', ''cabriolet''),
     (''convertible'', ''cabriolet''), (''roadster'', ''cabriolet''), (''van'', ''van''),
     (''minibus'', ''van'')]"

definition KEYWORD_conditions :: "(string \<times> string) list" where
  "KEYWORD_conditions =
    [(''new'', ''new''), (''used'', ''used''), (''second hand'', ''used''),
     (''pre-registration'', ''pre-registration''), (''demo'', ''demonstration''),
     (''demonstration'', ''demonstration''), (''classic'', ''classic''),
     (''vintage'', ''classic'')]"

definition KEYWORD_fuelTypes :: "(string \<times> string) list" where
  "KEYWORD_fuelTypes =
    [(''petrol'', ''petrol''), (''gas'', ''petrol''), (''gasoline'', ''petrol''),
     (''diesel'', ''diesel''), (''electric'', ''electric''), (''ev'', ''electric''),
     (''hybrid'', ''hybrid''), (''plug-in hybrid'', ''plug-in-hybrid''),
     (''phev'', ''plug-in-hybrid''), (''hydrogen'', ''hydrogen''), (''natural gas'', ''cng''),
     (''cng'', ''cng''), (''lpg'', ''lpg''), (''ethanol'', ''ethanol'')]"

definition KEYWORD_transmissions :: "(string \<times> string) list" where
  "KEYWORD_transmissions =
    [(''automatic'', ''automatic''), (''auto'', ''automatic''), (''manual'', ''manual''),
     (''stick shift'', ''manual''), (''semi-automatic'', ''semi-automatic''),
     (''semi auto'', ''semi-automatic'')]"

definition KEYWORD_driveTypes :: "(string \<times> string) list" where
  "KEYWORD_driveTypes =
    [(''all wheel drive'', ''awd''), (''awd'', ''awd''), (''4wd'', ''awd''),
     (''front wheel drive'', ''fwd''), (''fwd'', ''fwd''), (''rear wheel drive'', ''rwd''),
     (''rwd'', ''rwd'')]"

text \<open>
  The values of the \<^verbatim>\<open>features\<close> table are the names of nine boolean properties of
  \<^verbatim>\<open>CarFilters\<close>; they are the only keys a features object of the parser can have.
\<close>

datatype feature =
    heatedSeats | navigationSystem | sunroof | carPlay | alloyWheels | ledHeadlights
  | laneChangeAssist | emergencyBrakeAssist | trailerCoupling

definition KEYWORD_features :: "(string \<times> feature) list" where
  "KEYWORD_features =
    [(''heated seats'', heatedSeats), (''navigation'', navigationSystem),
     (''nav'', navigationSystem), (''gps'', navigationSystem), (''sunroof'', sunroof),
     (''panoramic roof'', sunroof), (''apple carplay'', carPlay),
     (''android auto'', carPlay), (''alloy wheels'', alloyWheels),
     (''led headlights'', ledHeadlights), (''led lights'', ledHeadlights),
     (''lane assist'', laneChangeAssist), (''emergency brake'', emergencyBrakeAssist),
     (''trailer coupling'', trailerCoupling), (''tow bar'', trailerCoupling)]"

definition KEYWORD_colors :: "(string \<times> string) list" where
  "KEYWORD_colors =
    [(''black'', ''Black''), (''white'', ''White''), (''silver'', ''Silver''),
     (''grey'', ''Grey''), (''gray'', ''Grey''), (''blue'', ''Blue''), (''red'', ''Red''),
     (''brown'', ''Brown''), (''green'', ''Green''), (''orange'', ''Orange''),
     (''yellow'', ''Yellow''), (''beige'', ''Beige''), (''gold'', ''Gold''),
     (''purple'', ''Purple'')]"

text \<open>Pieces shared by the patterns.\<close>

definition currency :: regex where
  \<comment> \<open>\<^verbatim>\<open>(?:E|euros?|euro)?\<close>, where \<^verbatim>\<open>E\<close> is the euro sign U+20AC\<close>
  "currency = Opt (alts [NoChar, Seq (lits ''euro'') (Opt (Lit CHR ''s'')), lits ''euro''])"

definition amount :: "nat \<Rightarrow> regex" where
  \<comment> \<open>\<^verbatim>\<open>(\d+(?:,\d{3})*(?:\.\d{2})?)\<close> as group \<open>i\<close>\<close>
  "amount i =
     Grp i (seqs [Plus Digit, Star (Seq (Lit CHR '','') (Rep 3 Digit)),
                  Opt (Seq (Lit CHR ''.'') (Rep 2 Digit))])"

definition grouped :: "nat \<Rightarrow> regex" where
  \<comment> \<open>\<^verbatim>\<open>(\d+(?:,\d{3})*)\<close> as group \<open>i\<close>\<close>
  "grouped i = Grp i (Seq (Plus Digit) (Star (Seq (Lit CHR '','') (Rep 3 Digit))))"

definition year4 :: "nat \<Rightarrow> regex" where
  \<comment> \<open>\<^verbatim>\<open>(\d{4})\<close> as group \<open>i\<close>\<close>
  "year4 i = Grp i (Rep 4 Digit)"

definition distance_unit :: regex where
  \<comment> \<open>\<^verbatim>\<open>(?:km|kilometers?|miles?|mi)\<close>\<close>
  "distance_unit = alts [lits ''km'', Seq (lits ''kilometer'') (Opt (Lit CHR ''s'')),
                         Seq (lits ''mile'') (Opt (Lit CHR ''s'')), lits ''mi'']"

definition PRICE_PATTERNS :: "regex list" where
  "PRICE_PATTERNS =
    [seqs [words [''under'', ''less than'', ''below'', ''max'', ''maximum''],
           Star Space, currency, Star Space, amount 1],
     seqs [words [''over'', ''more than'', ''above'', ''min'', ''minimum''],
           Star Space, currency, Star Space, amount 1],
     seqs [words [''between'', ''from''], Star Space, currency, Star Space, amount 1,
           Star Space, words [''to'', ''and'', ''-''], Star Space, currency, Star Space,
           amount 2],
     seqs [currency, Star Space, amount 1]]"

definition YEAR_PATTERNS :: "regex list" where
  "YEAR_PATTERNS =
    [seqs [words [''from'', ''after'', ''since''], Star Space, year4 1],
     seqs [words [''before'', ''until''], Star Space, year4 1],
     seqs [words [''between'', ''from''], Star Space, year4 1, Star Space,
           words [''to'', ''and'', ''-''], Star Space, year4 2],
     year4 1]"

definition MILEAGE_PATTERNS :: "regex list" where
  "MILEAGE_PATTERNS =
    [seqs [words [''under'', ''less than'', ''below''], Star Space, grouped 1, Star Space,
           Opt distance_unit],
     seqs [words [''over'', ''more than'', ''above''], Star Space, grouped 1, Star Space,
           Opt distance_unit],
     seqs [grouped 1, Star Space, distance_unit]]"


section \<open>The extraction engine\<close>

text \<open>
  A number of the host language is an integer or \<^verbatim>\<open>NaN\<close>. (The numbers of the program
  are doubles; the parser only produces them from decimal digits, and they are exact
  below \<open>2 ^ 53\<close>.)
\<close>

datatype jsnum = NaN | Num int

record range =
  min_r :: "jsnum option"
  max_r :: "jsnum option"

text \<open>
  The entities object of one utterance: a property that was never assigned is \<open>None\<close>.
  A features object is kept as the list of its entries, in insertion order.
\<close>

record entities =
  makes :: "string list option"
  vehicleTypes :: "string list option"
  conditions :: "string list option"
  fuelTypes :: "string list option"
  transmissions :: "string list option"
  driveTypes :: "string list option"
  features :: "(feature \<times> bool) list option"
  colors :: "string list option"
  priceRange :: "range option"
  yearRange :: "range option"
  mileage :: "range option"

record VoiceCommand =
  intent :: string
  entities :: entities
  confidence :: rat

definition no_entities :: entities where
  "no_entities =
     \<lparr>makes = None, vehicleTypes = None, conditions = None, fuelTypes = None,
      transmissions = None, driveTypes = None, features = None, colors = None,
      priceRange = None, yearRange = None, mileage = None\<rparr>"

text \<open>\<^verbatim>\<open>[...new Set(found)]\<close>: the first occurrence of every value, in order.\<close>

primrec set_add :: "'a list \<Rightarrow> 'a \<Rightarrow> 'a list" where
  "set_add [] x = [x]"
| "set_add (y # ys) x = (if y = x then y # ys else y # set_add ys x)"

definition uniq :: "'a list \<Rightarrow> 'a list" where
  "uniq xs = foldl set_add [] xs"

primrec found_values :: "string \<Rightarrow> (string \<times> 'v) list \<Rightarrow> 'v list" where
  "found_values text [] = []"
| "found_values text (kv # kvs) =
     (if str_includes text (fst kv) then snd kv # found_values text kvs
      else found_values text kvs)"

definition extractKeywords :: "string \<Rightarrow> (string \<times> string) list \<Rightarrow> string list" where
  "extractKeywords text keywordMap = uniq (found_values text keywordMap)"

text \<open>\<^verbatim>\<open>features[feature] = true\<close> on the entry list of an object.\<close>

primrec obj_set :: "('k \<times> 'v) list \<Rightarrow> 'k \<Rightarrow> 'v \<Rightarrow> ('k \<times> 'v) list" where
  "obj_set [] k v = [(k, v)]"
| "obj_set (e # es) k v = (if fst e = k then (k, v) # es else e # obj_set es k v)"

definition extractFeatures :: "string \<Rightarrow> (feature \<times> bool) list" where
  "extractFeatures text =
     foldl (\<lambda>fs f. obj_set fs f True) [] (found_values text KEYWORD_features)"

text \<open>
  \<open>m i\<close> is \<^verbatim>\<open>match[i]\<close> of a match \<open>m\<close>; a group that took no part in the match reads
  as \<^verbatim>\<open>undefined\<close>, here \<open>None\<close>. \<^verbatim>\<open>parseInt\<close> is only applied to such groups: digits,
  commas (removed before the call by \<open>parseNumber\<close>) and a dot. It reads the leading
  digits and gives \<^verbatim>\<open>NaN\<close> without one, also for \<^verbatim>\<open>undefined\<close>. \<open>parseNumber\<close> calls
  \<^verbatim>\<open>replace\<close> on its argument, which throws a \<^verbatim>\<open>TypeError\<close> on \<^verbatim>\<open>undefined\<close>.
\<close>

datatype error = TypeError

definition digit_value :: "char \<Rightarrow> int" where
  "digit_value c = int (of_char c) - 48"

definition parseInt :: "string option \<Rightarrow> jsnum" where
  "parseInt arg =
     (case arg of
        None \<Rightarrow> NaN
      | Some str \<Rightarrow>
          (case takeWhile isDigit str of
             [] \<Rightarrow> NaN
           | ds \<Rightarrow> Num (foldl (\<lambda>n c. 10 * n + digit_value c) 0 ds)))"

definition parseNumber :: "string option \<Rightarrow> error + jsnum" where
  "parseNumber arg =
     (case arg of
        None \<Rightarrow> Inl TypeError
      | Some str \<Rightarrow> Inr (parseInt (Some (filter (\<lambda>c. c \<noteq> CHR '','') str))))"

definition truthy :: "string option \<Rightarrow> bool" where
  \<comment> \<open>\<^verbatim>\<open>if (match[2])\<close>: neither \<^verbatim>\<open>undefined\<close> nor the empty string\<close>
  "truthy arg = (case arg of None \<Rightarrow> False | Some w \<Rightarrow> w \<noteq> [])"

definition only_min :: "jsnum \<Rightarrow> range" where
  "only_min n = \<lparr>min_r = Some n, max_r = None\<rparr>"

definition only_max :: "jsnum \<Rightarrow> range" where
  "only_max n = \<lparr>min_r = None, max_r = Some n\<rparr>"

definition min_max :: "jsnum \<Rightarrow> jsnum \<Rightarrow> range" where
  "min_max lo hi = \<lparr>min_r = Some lo, max_r = Some hi\<rparr>"

definition any_includes :: "string \<Rightarrow> string list \<Rightarrow> bool" where
  \<comment> \<open>\<^verbatim>\<open>text.includes(k1) || text.includes(k2) || ...\<close>\<close>
  "any_includes text ks = list_ex (str_includes text) ks"

text \<open>
  The three numeric extractors walk their pattern list; the first pattern that matches
  decides, and the direction is read off the whole text.
\<close>

fun price_loop :: "string \<Rightarrow> regex list \<Rightarrow> error + range option" where
  "price_loop text [] = Inr None"
| "price_loop text (pattern # patterns) =
     (case str_match text pattern of
        None \<Rightarrow> price_loop text patterns
      | Some match \<Rightarrow>
          if any_includes text [''under'', ''less than'', ''below'', ''max'']
          then map_sum id (\<lambda>n. Some (only_max n)) (parseNumber (match 1))
          else if any_includes text [''over'', ''more than'', ''above'', ''min'']
          then map_sum id (\<lambda>n. Some (only_min n)) (parseNumber (match 1))
          else if truthy (match 2)
          then (case parseNumber (match 1) of
                  Inl e \<Rightarrow> Inl e
                | Inr lo \<Rightarrow> map_sum id (\<lambda>hi. Some (min_max lo hi)) (parseNumber (match 2)))
          else map_sum id (\<lambda>n. Some (only_max n)) (parseNumber (match 1)))"

definition extractPriceRange :: "string \<Rightarrow> error + range option" where
  "extractPriceRange text = price_loop text PRICE_PATTERNS"

fun year_loop :: "string \<Rightarrow> regex list \<Rightarrow> range option" where
  "year_loop text [] = None"
| "year_loop text (pattern # patterns) =
     (case str_match text pattern of
        None \<Rightarrow> year_loop text patterns
      | Some match \<Rightarrow>
          if any_includes text [''from'', ''after'', ''since'']
          then Some (only_min (parseInt (match 1)))
          else if any_includes text [''before'', ''until'']
          then Some (only_max (parseInt (match 1)))
          else if truthy (match 2)
          then Some (min_max (parseInt (match 1)) (parseInt (match 2)))
          else Some (only_min (parseInt (match 1))))"

definition extractYearRange :: "string \<Rightarrow> range option" where
  "extractYearRange text = year_loop text YEAR_PATTERNS"

fun mileage_loop :: "string \<Rightarrow> regex list \<Rightarrow> error + range option" where
  "mileage_loop text [] = Inr None"
| "mileage_loop text (pattern # patterns) =
     (case str_match text pattern of
        None \<Rightarrow> mileage_loop text patterns
      | Some match \<Rightarrow>
          (case parseNumber (match 1) of
             Inl e \<Rightarrow> Inl e
           | Inr val \<Rightarrow>
               if any_includes text [''under'', ''less than'', ''below'']
               then Inr (Some (only_max val))
               else if any_includes text [''over'', ''more than'', ''above'']
               then Inr (Some (only_min val))
               else Inr (Some (only_max val))))"

definition extractMileage :: "string \<Rightarrow> error + range option" where
  "extractMileage text = mileage_loop text MILEAGE_PATTERNS"

text \<open>\<^verbatim>\<open>Object.keys(entities).length\<close>: the number of assigned properties.\<close>

definition count_some :: "'a option \<Rightarrow> nat" where
  "count_some x = (case x of None \<Rightarrow> 0 | Some _ \<Rightarrow> 1)"

definition num_keys :: "entities \<Rightarrow> nat" where
  "num_keys e =
     count_some (makes e) + count_some (vehicleTypes e) + count_some (conditions e)
     + count_some (fuelTypes e) + count_some (transmissions e) + count_some (driveTypes e)
     + count_some (features e) + count_some (colors e) + count_some (priceRange e)
     + count_some (yearRange e) + count_some (mileage e)"

definition determineIntent :: "string \<Rightarrow> entities \<Rightarrow> string" where
  "determineIntent text e =
     (if any_includes text [''find'', ''search'', ''show'', ''looking for'']
      then ''search_cars''
      else if any_includes text [''compare'', ''comparison'']
      then ''compare_cars''
      else if any_includes text [''detail'', ''more info'', ''tell me about'']
      then ''car_details''
      else if any_includes text [''reset'', ''clear'', ''start over'']
      then ''reset_filters''
      else if any_includes text [''yes'', ''correct'', ''right'']
      then ''confirm''
      else if any_includes text [''no'', ''wrong'', ''change'']
      then ''deny''
      else if num_keys e > 0
      then ''specify_filters''
      else ''unknown'')"

text \<open>
  The confidence is a double. A finite double is modelled by the rational number it
  denotes, and every arithmetic operation of the program by the exact operation followed
  by rounding to the nearest double (binary64: 53 significant bits, least normal
  exponent -1022), ties going to the even significand. The confidence stays below 2, so
  overflow to infinity is not modelled.
\<close>

function bit_length :: "int \<Rightarrow> int" where
  \<comment> \<open>the number of binary digits of a positive integer\<close>
  "bit_length n = (if n \<le> 0 then 0 else 1 + bit_length (n div 2))"
  by pat_completeness auto
termination
  by (relation "measure nat") auto

declare bit_length.simps [simp del]

definition pow2 :: "int \<Rightarrow> rat" where
  "pow2 k = (if 0 \<le> k then 2 ^ nat k else 1 / 2 ^ nat (- k))"

definition round_even :: "rat \<Rightarrow> int" where
  \<comment> \<open>the nearest integer; of two nearest ones the even one\<close>
  "round_even x =
     (let f = \<lfloor>x\<rfloor>; d = x - of_int f
      in if d < 1 / 2 then f else if 1 / 2 < d then f + 1 else if even f then f else f + 1)"

definition binary_exponent :: "rat \<Rightarrow> int" where
  \<comment> \<open>for \<open>a > 0\<close> the \<open>e\<close> with \<open>2 ^ e \<le> a < 2 ^ (e + 1)\<close>\<close>
  "binary_exponent a =
     (let d = bit_length (fst (quotient_of a)) - bit_length (snd (quotient_of a))
      in if pow2 d \<le> a then d else d - 1)"

definition double_of :: "rat \<Rightarrow> rat" where
  "double_of x =
     (if x = 0 then 0
      else let u = pow2 (max (binary_exponent \<bar>x\<bar>) (- 1022) - 52)
           in sgn x * of_int (round_even (\<bar>x\<bar> / u)) * u)"

definition fadd :: "rat \<Rightarrow> rat \<Rightarrow> rat" where
  \<comment> \<open>\<^verbatim>\<open>x + y\<close> on doubles\<close>
  "fadd x y = double_of (x + y)"

definition fmul :: "rat \<Rightarrow> rat \<Rightarrow> rat" where
  \<comment> \<open>\<^verbatim>\<open>x * y\<close> on doubles\<close>
  "fmul x y = double_of (x * y)"

text \<open>
  \<^verbatim>\<open>calculateConfidence\<close>: the literals \<^verbatim>\<open>0.5\<close>, \<^verbatim>\<open>0.1\<close>, \<^verbatim>\<open>0.2\<close> are the doubles nearest to
  them, and the number of keys is an integer, hence a double. The loop over the booster
  keywords stops at the first one found.
\<close>

definition confidenceKeywords :: "string list" where
  "confidenceKeywords = [''find'', ''search'', ''looking for'', ''want'', ''need'', ''show me'']"

fun boost_loop :: "string \<Rightarrow> string list \<Rightarrow> rat \<Rightarrow> rat" where
  "boost_loop text [] conf = conf"
| "boost_loop text (keyword # keywords) conf =
     (if str_includes (toLowerCase text) keyword then fadd conf (double_of (2 / 10))
      else boost_loop text keywords conf)"

definition calculateConfidence :: "entities \<Rightarrow> string \<Rightarrow> rat" where
  "calculateConfidence e text =
     min (boost_loop text confidenceKeywords
            (fadd (double_of (5 / 10)) (fmul (of_nat (num_keys e)) (double_of (1 / 10)))))
         1"

definition nonempty :: "'a list \<Rightarrow> 'a list option" where
  \<comment> \<open>\<^verbatim>\<open>if (xs.length > 0) entities.field = xs\<close>\<close>
  "nonempty xs = (if xs = [] then None else Some xs)"

definition parseVoiceCommand :: "string \<Rightarrow> error + VoiceCommand" where
  "parseVoiceCommand text =
     (let normalizedText = trim (toLowerCase text)
      in case extractPriceRange normalizedText of
           Inl e \<Rightarrow> Inl e
         | Inr price \<Rightarrow>
             (case extractMileage normalizedText of
                Inl e \<Rightarrow> Inl e
              | Inr mil \<Rightarrow>
                  (let ents =
                     \<lparr>makes = nonempty (extractKeywords normalizedText KEYWORD_makes),
                      vehicleTypes = nonempty (extractKeywords normalizedText KEYWORD_vehicleTypes),
                      conditions = nonempty (extractKeywords normalizedText KEYWORD_conditions),
                      fuelTypes = nonempty (extractKeywords normalizedText KEYWORD_fuelTypes),
                      transmissions = nonempty (extractKeywords normalizedText KEYWORD_transmissions),
                      driveTypes = nonempty (extractKeywords normalizedText KEYWORD_driveTypes),
                      features = nonempty (extractFeatures normalizedText),
                      colors = nonempty (extractKeywords normalizedText KEYWORD_colors),
                      priceRange = price,
                      yearRange = extractYearRange normalizedText,
                      mileage = mil\<rparr>
                   in Inr \<lparr>intent = determineIntent normalizedText ents,
                           entities = ents,
                           confidence = calculateConfidence ents normalizedText\<rparr>)))"


section \<open>Filter reconciliation\<close>

text \<open>
  \<^verbatim>\<open>Partial<CarFilters>\<close>: every property may be missing (\<open>None\<close>). The record names the
  properties that \<^verbatim>\<open>applyEntitiesToFilters\<close> and the dialogue read or write; the nine
  boolean feature properties, which are written through a computed key, are the map
  \<open>flags\<close>. All other properties of \<^verbatim>\<open>CarFilters\<close> are the extension part of the
  record.
\<close>

record CarFilters =
  makes :: "string list option"
  vehicleTypes :: "string list option"
  conditions :: "string list option"
  fuelTypes :: "string list option"
  transmissions :: "string list option"
  driveTypes :: "string list option"
  exteriorColors :: "string list option"
  priceMin :: "jsnum option"
  priceMax :: "jsnum option"
  yearMin :: "jsnum option"
  yearMax :: "jsnum option"
  mileageMin :: "jsnum option"
  mileageMax :: "jsnum option"
  flags :: "feature \<Rightarrow> bool option"

definition empty_filters :: CarFilters where
  \<comment> \<open>the object \<^verbatim>\<open>{}\<close>\<close>
  "empty_filters =
     \<lparr>makes = None, vehicleTypes = None, conditions = None, fuelTypes = None,
      transmissions = None, driveTypes = None, exteriorColors = None,
      priceMin = None, priceMax = None, yearMin = None, yearMax = None,
      mileageMin = None, mileageMax = None, flags = Map.empty\<rparr>"

definition or_empty :: "'a list option \<Rightarrow> 'a list" where
  \<comment> \<open>\<^verbatim>\<open>xs || []\<close>; an array, even an empty one, is truthy\<close>
  "or_empty xs = (case xs of None \<Rightarrow> [] | Some ys \<Rightarrow> ys)"

definition spread :: "'a list option \<Rightarrow> 'a list option \<Rightarrow> 'a list option" where
  \<comment> \<open>\<^verbatim>\<open>if (ent) field = [...(field || []), ...ent]\<close>: the new value of \<open>field\<close>\<close>
  "spread ent field = (case ent of None \<Rightarrow> field | Some xs \<Rightarrow> Some (or_empty field @ xs))"

definition bound :: "jsnum option \<Rightarrow> jsnum option \<Rightarrow> jsnum option" where
  \<comment> \<open>\<^verbatim>\<open>if (b !== undefined) field = b\<close>: the new value of \<open>field\<close>\<close>
  "bound b field = (case b of None \<Rightarrow> field | Some n \<Rightarrow> Some n)"

text \<open>The statements of \<^verbatim>\<open>applyEntitiesToFilters\<close> on \<^verbatim>\<open>updatedFilters\<close>, one by one.\<close>

definition put_makes :: "entities \<Rightarrow> 'a CarFilters_scheme \<Rightarrow> 'a CarFilters_scheme" where
  "put_makes e u = u\<lparr>makes := spread (entities.makes e) (makes u)\<rparr>"

definition put_vehicleTypes :: "entities \<Rightarrow> 'a CarFilters_scheme \<Rightarrow> 'a CarFilters_scheme" where
  "put_vehicleTypes e u = u\<lparr>vehicleTypes := spread (entities.vehicleTypes e) (vehicleTypes u)\<rparr>"

definition put_conditions :: "entities \<Rightarrow> 'a CarFilters_scheme \<Rightarrow> 'a CarFilters_scheme" where
  "put_conditions e u = u\<lparr>conditions := spread (entities.conditions e) (conditions u)\<rparr>"

definition put_fuelTypes :: "entities \<Rightarrow> 'a CarFilters_scheme \<Rightarrow> 'a CarFilters_scheme" where
  "put_fuelTypes e u = u\<lparr>fuelTypes := spread (entities.fuelTypes e) (fuelTypes u)\<rparr>"

definition put_transmissions :: "entities \<Rightarrow> 'a CarFilters_scheme \<Rightarrow> 'a CarFilters_scheme" where
  "put_transmissions e u =
     u\<lparr>transmissions := spread (entities.transmissions e) (transmissions u)\<rparr>"

definition put_driveTypes :: "entities \<Rightarrow> 'a CarFilters_scheme \<Rightarrow> 'a CarFilters_scheme" where
  "put_driveTypes e u = u\<lparr>driveTypes := spread (entities.driveTypes e) (driveTypes u)\<rparr>"

definition put_colors :: "entities \<Rightarrow> 'a CarFilters_scheme \<Rightarrow> 'a CarFilters_scheme" where
  "put_colors e u = u\<lparr>exteriorColors := spread (colors e) (exteriorColors u)\<rparr>"

definition put_flag :: "'a CarFilters_scheme \<Rightarrow> feature \<times> bool \<Rightarrow> 'a CarFilters_scheme" where
  \<comment> \<open>\<^verbatim>\<open>(updatedFilters as any)[key] = value\<close>\<close>
  "put_flag u kv = u\<lparr>flags := (flags u)(fst kv \<mapsto> snd kv)\<rparr>"

definition put_features :: "entities \<Rightarrow> 'a CarFilters_scheme \<Rightarrow> 'a CarFilters_scheme" where
  "put_features e u = (case features e of None \<Rightarrow> u | Some fs \<Rightarrow> foldl put_flag u fs)"

definition put_priceRange :: "entities \<Rightarrow> 'a CarFilters_scheme \<Rightarrow> 'a CarFilters_scheme" where
  "put_priceRange e u =
     (case priceRange e of
        None \<Rightarrow> u
      | Some r \<Rightarrow> u\<lparr>priceMin := bound (min_r r) (priceMin u),
                     priceMax := bound (max_r r) (priceMax u)\<rparr>)"

definition put_yearRange :: "entities \<Rightarrow> 'a CarFilters_scheme \<Rightarrow> 'a CarFilters_scheme" where
  "put_yearRange e u =
     (case yearRange e of
        None \<Rightarrow> u
      | Some r \<Rightarrow> u\<lparr>yearMin := bound (min_r r) (yearMin u),
                     yearMax := bound (max_r r) (yearMax u)\<rparr>)"

definition put_mileage :: "entities \<Rightarrow> 'a CarFilters_scheme \<Rightarrow> 'a CarFilters_scheme" where
  "put_mileage e u =
     (case mileage e of
        None \<Rightarrow> u
      | Some r \<Rightarrow> u\<lparr>mileageMin := bound (min_r r) (mileageMin u),
                     mileageMax := bound (max_r r) (mileageMax u)\<rparr>)"

definition statements :: "entities \<Rightarrow> ('a CarFilters_scheme \<Rightarrow> 'a CarFilters_scheme) list" where
  "statements e =
     [put_makes e, put_vehicleTypes e, put_conditions e, put_fuelTypes e,
      put_transmissions e, put_driveTypes e, put_colors e, put_features e,
      put_priceRange e, put_yearRange e, put_mileage e]"

text \<open>
  The value that \<^verbatim>\<open>applyEntitiesToFilters\<close> returns: the copy of \<^verbatim>\<open>currentFilters\<close>
  after all statements.
\<close>

definition applyEntitiesToFilters ::
  "entities \<Rightarrow> 'a CarFilters_scheme \<Rightarrow> 'a CarFilters_scheme" where
  "applyEntitiesToFilters e currentFilters = foldl (\<lambda>u stmt. stmt u) currentFilters (statements e)"


text \<open>What the statements do to a single property, as functions of its old value.\<close>

definition lower :: "range option \<Rightarrow> jsnum option \<Rightarrow> jsnum option" where
  "lower r field = (case r of None \<Rightarrow> field | Some x \<Rightarrow> bound (min_r x) field)"

definition upper :: "range option \<Rightarrow> jsnum option \<Rightarrow> jsnum option" where
  "upper r field = (case r of None \<Rightarrow> field | Some x \<Rightarrow> bound (max_r x) field)"

definition written :: "(feature \<times> bool) list option \<Rightarrow> feature \<Rightarrow> bool option" where
  \<comment> \<open>the flags a features object writes: for each key its last entry\<close>
  "written fs = (case fs of None \<Rightarrow> Map.empty | Some kvs \<Rightarrow> map_of (rev kvs))"

text \<open>When a category, or one bound of a range, is absent from an entities object.\<close>

definition absent_min :: "range option \<Rightarrow> bool" where
  "absent_min r = (case r of None \<Rightarrow> True | Some x \<Rightarrow> min_r x = None)"

definition absent_max :: "range option \<Rightarrow> bool" where
  "absent_max r = (case r of None \<Rightarrow> True | Some x \<Rightarrow> max_r x = None)"

definition feature_keys :: "(feature \<times> bool) list option \<Rightarrow> feature set" where
  "feature_keys fs = (case fs of None \<Rightarrow> {} | Some kvs \<Rightarrow> fst ` set kvs)"

subsection \<open>Objects by reference\<close>

text \<open>
  Filter objects live in a store and are passed by reference. \<^verbatim>\<open>{ ...currentFilters }\<close>
  allocates a copy; every later statement writes a property of the copy. Arrays are
  kept as values: the function builds new arrays with spread syntax and never writes
  into an existing one.
\<close>

record 'a store =
  cells :: "nat \<Rightarrow> 'a CarFilters_scheme"
  next_free :: nat

definition alloc :: "'a CarFilters_scheme \<Rightarrow> 'a store \<Rightarrow> nat \<times> 'a store" where
  "alloc obj h = (next_free h, h\<lparr>cells := (cells h)(next_free h := obj), next_free := Suc (next_free h)\<rparr>)"

definition exec :: "nat \<Rightarrow> 'a store \<Rightarrow> ('a CarFilters_scheme \<Rightarrow> 'a CarFilters_scheme) \<Rightarrow> 'a store" where
  \<comment> \<open>a statement that assigns properties of the object at \<open>a\<close>\<close>
  "exec a h stmt = h\<lparr>cells := (cells h)(a := stmt (cells h a))\<rparr>"

definition applyEntitiesToFilters_ref :: "entities \<Rightarrow> nat \<Rightarrow> 'a store \<Rightarrow> nat \<times> 'a store" where
  "applyEntitiesToFilters_ref e currentFilters h =
     (let (updatedFilters, h1) = alloc (cells h currentFilters) h
      in (updatedFilters, foldl (exec updatedFilters) h1 (statements e)))"

section \<open>The dialogue controller\<close>

text \<open>
  \<^verbatim>\<open>!filters.priceMax\<close> holds for a missing property, for \<^verbatim>\<open>0\<close> and for \<^verbatim>\<open>NaN\<close>;
  \<^verbatim>\<open>!filters.makes || filters.makes.length === 0\<close> for a missing or empty array.
\<close>

definition falsy_num :: "jsnum option \<Rightarrow> bool" where
  "falsy_num x = (case x of None \<Rightarrow> True | Some NaN \<Rightarrow> True | Some (Num n) \<Rightarrow> n = 0)"

definition none_collected :: "'a list option \<Rightarrow> bool" where
  "none_collected xs = (case xs of None \<Rightarrow> True | Some ys \<Rightarrow> length ys = 0)"

definition generateNextQuestion :: "'a CarFilters_scheme \<Rightarrow> string" where
  "generateNextQuestion filters =
     (if none_collected (makes filters)
      then ''What car brand would you prefer? For example, BMW, Mercedes, Audi, or Volkswagen?''
      else if falsy_num (priceMax filters) \<and> falsy_num (priceMin filters)
      then ''What's your budget range? You can say something like 'under 30,000 euros' or 'between 20,000 and 50,000 euros'.''
      else if none_collected (vehicleTypes filters)
      then ''What type of vehicle interests you? For example, SUV, sedan, coupe, or estate?''
      else if none_collected (transmissions filters)
      then ''Do you prefer automatic or manual transmission?''
      else ''Is there anything else specific you're looking for? Or should I search for cars with your current criteria?'')"

record ConversationState =
  currentStep :: string
  collectedFilters :: CarFilters
  pendingConfirmation :: "string option"
  lastSpoken :: "string option"

text \<open>
  What the assistant says is a fixed text, or the text that \<^verbatim>\<open>generateConfirmationText\<close>
  builds from the entities and the utterance (its wording is not modelled).
\<close>

datatype said = Text string | ConfirmationText entities string

datatype role = user | assistant

text \<open>
  The calls a handler makes besides updating the conversation state, in order;
  \<open>setTimeout\<close> holds the calls of a deferred callback and its delay in milliseconds.
\<close>

datatype effect =
    addMessage role said
  | speak said
  | onFiltersUpdate CarFilters
  | onSearch
  | onClose
  | toast string string
  | setTimeout "effect list" nat

definition initialState :: ConversationState where
  \<comment> \<open>the argument of \<^verbatim>\<open>useState\<close>\<close>
  "initialState =
     \<lparr>currentStep = ''greeting'', collectedFilters = empty_filters,
      pendingConfirmation = None, lastSpoken = None\<rparr>"

definition collecting :: ConversationState where
  \<comment> \<open>the object that \<^verbatim>\<open>startConversation\<close> and \<^verbatim>\<open>handleReset\<close> store\<close>
  "collecting =
     \<lparr>currentStep = ''collecting_preferences'', collectedFilters = empty_filters,
      pendingConfirmation = None, lastSpoken = None\<rparr>"

definition say :: "string \<Rightarrow> effect list" where
  \<comment> \<open>\<^verbatim>\<open>addMessage('assistant', response); speak(response);\<close>\<close>
  "say response = [addMessage assistant (Text response), speak (Text response)]"

definition startConversation :: "ConversationState \<times> effect list" where
  "startConversation =
     (collecting,
      say (''Welcome to RedLine Motors voice assistant! I can help you find the perfect car. Tell me what you're looking for - for example, 'I need a used SUV under thirty thousand euros with automatic transmission.'' @ [CHR 0x27]))"

definition handleFilterSpecification ::
  "entities \<Rightarrow> string \<Rightarrow> ConversationState \<Rightarrow> ConversationState \<times> effect list" where
  "handleFilterSpecification e originalText conversationState =
     (let updatedFilters = applyEntitiesToFilters e (collectedFilters conversationState)
      in (conversationState\<lparr>collectedFilters := updatedFilters\<rparr>,
          [onFiltersUpdate updatedFilters,
           addMessage assistant (ConfirmationText e originalText),
           speak (ConfirmationText e originalText),
           setTimeout (say (generateNextQuestion updatedFilters)) 2000]))"

definition handleConfirmation :: "ConversationState \<Rightarrow> ConversationState \<times> effect list" where
  "handleConfirmation conversationState =
     (conversationState,
      say ''Perfect! Let me search for cars matching your criteria.''
      @ [setTimeout
           [onSearch, onClose,
            toast ''Search Complete'' ''Found cars matching your voice search criteria!'']
           1500])"

definition handleDenial :: "ConversationState \<Rightarrow> ConversationState \<times> effect list" where
  "handleDenial conversationState =
     (conversationState,
      say ''No problem! Please tell me what you'd like to change or search for instead.'')"

definition handleReset :: "ConversationState \<Rightarrow> ConversationState \<times> effect list" where
  "handleReset conversationState =
     (collecting,
      onFiltersUpdate empty_filters
      # say ''All filters cleared! Let's start fresh. What kind of car are you looking for?'')"

definition handleUnknownCommand :: "string \<Rightarrow> ConversationState \<Rightarrow> ConversationState \<times> effect list" where
  "handleUnknownCommand originalText conversationState =
     (conversationState,
      say (''I didn't quite understand that. Could you try rephrasing? For example, you could say 'I want a BMW SUV under 50,000 euros' or 'Show me electric cars with heated seats.'' @ [CHR 0x27]))"

definition processVoiceCommand ::
  "VoiceCommand \<Rightarrow> string \<Rightarrow> ConversationState \<Rightarrow> ConversationState \<times> effect list" where
  "processVoiceCommand command originalText conversationState =
     (if intent command = ''search_cars'' \<or> intent command = ''specify_filters''
      then handleFilterSpecification (entities command) originalText conversationState
      else if intent command = ''confirm'' then handleConfirmation conversationState
      else if intent command = ''deny'' then handleDenial conversationState
      else if intent command = ''reset_filters'' then handleReset conversationState
      else handleUnknownCommand originalText conversationState)"

definition handleVoiceInput ::
  "string \<Rightarrow> ConversationState \<Rightarrow> error + ConversationState \<times> effect list" where
  "handleVoiceInput text conversationState =
     (case parseVoiceCommand text of
        Inl err \<Rightarrow> Inl err
      | Inr command \<Rightarrow>
          (let (st, effs) = processVoiceCommand command text conversationState
           in Inr (st, addMessage user (Text text) # effs)))"


section \<open>Notions used in the statements\<close>

text \<open>
  A matcher step keeps group \<open>i\<close> when a state with the group set only leads to states
  with the group set; a pattern sets group \<open>i\<close> when the group is set after every way
  the pattern can match.
\<close>

definition keeps_group :: "nat \<Rightarrow> (mstate \<Rightarrow> mstate list) \<Rightarrow> bool" where
  "keeps_group i f = (\<forall>st st'. st' \<in> set (f st) \<longrightarrow> snd st i \<noteq> None \<longrightarrow> snd st' i \<noteq> None)"

definition sets_group :: "nat \<Rightarrow> regex \<Rightarrow> bool" where
  "sets_group i r = (\<forall>st st'. st' \<in> set (rx_run r st) \<longrightarrow> snd st' i \<noteq> None)"

text \<open>
  The priority order of the intents as the specification words it: a list of keyword
  groups, each with its label, tried from the first to the last.
\<close>

definition intent_rules :: "(string list \<times> string) list" where
  "intent_rules =
    [([''find'', ''search'', ''show'', ''looking for''], ''search_cars''),
     ([''compare'', ''comparison''], ''compare_cars''),
     ([''detail'', ''more info'', ''tell me about''], ''car_details''),
     ([''reset'', ''clear'', ''start over''], ''reset_filters''),
     ([''yes'', ''correct'', ''right''], ''confirm''),
     ([''no'', ''wrong'', ''change''], ''deny'')]"

fun first_rule :: "string \<Rightarrow> (string list \<times> string) list \<Rightarrow> string \<Rightarrow> string" where
  "first_rule text [] fallback = fallback"
| "first_rule text (rule # rules) fallback =
     (if any_includes text (fst rule) then snd rule else first_rule text rules fallback)"

text \<open>
  Nothing matches a normalized text when it contains no keyword of the lexicon and no
  intent keyword, and no pattern of the three numeric extractors matches it.
\<close>

definition all_keywords :: "string list" where
  "all_keywords =
     map fst KEYWORD_makes @ map fst KEYWORD_vehicleTypes @ map fst KEYWORD_conditions
     @ map fst KEYWORD_fuelTypes @ map fst KEYWORD_transmissions @ map fst KEYWORD_driveTypes
     @ map fst KEYWORD_features @ map fst KEYWORD_colors @ concat (map fst intent_rules)"

definition all_patterns :: "regex list" where
  "all_patterns = PRICE_PATTERNS @ YEAR_PATTERNS @ MILEAGE_PATTERNS"

definition matches :: "string \<Rightarrow> regex \<Rightarrow> bool" where
  "matches text pattern = (case str_match text pattern of None \<Rightarrow> False | Some _ \<Rightarrow> True)"

definition nothing_matches :: "string \<Rightarrow> bool" where
  "nothing_matches text =
     (\<not> any_includes text all_keywords \<and> \<not> list_ex (matches text) all_patterns)"

text \<open>The entities object that the parser builds for a normalized text.\<close>

definition entities_of :: "string \<Rightarrow> range option \<Rightarrow> range option \<Rightarrow> entities" where
  "entities_of normalizedText price mil =
     \<lparr>entities.makes = nonempty (extractKeywords normalizedText KEYWORD_makes),
      entities.vehicleTypes = nonempty (extractKeywords normalizedText KEYWORD_vehicleTypes),
      entities.conditions = nonempty (extractKeywords normalizedText KEYWORD_conditions),
      entities.fuelTypes = nonempty (extractKeywords normalizedText KEYWORD_fuelTypes),
      entities.transmissions = nonempty (extractKeywords normalizedText KEYWORD_transmissions),
      entities.driveTypes = nonempty (extractKeywords normalizedText KEYWORD_driveTypes),
      features = nonempty (extractFeatures normalizedText),
      colors = nonempty (extractKeywords normalizedText KEYWORD_colors),
      priceRange = price,
      yearRange = extractYearRange normalizedText,
      mileage = mil\<rparr>"

text \<open>
  The score of \<open>n\<close> entity categories before the bonus, \<^verbatim>\<open>0.5 + n * 0.1\<close> in doubles, and
  the presence of a booster phrase in a text.
\<close>

definition base_score :: "nat \<Rightarrow> rat" where
  "base_score n = fadd (double_of (5 / 10)) (fmul (of_nat n) (double_of (1 / 10)))"

definition has_booster :: "string \<Rightarrow> bool" where
  \<comment> \<open>\<^verbatim>\<open>text.toLowerCase().includes(keyword)\<close> for some booster keyword\<close>
  "has_booster text = any_includes (toLowerCase text) confidenceKeywords"

text \<open>Parsing an utterance and merging its entities into a filter object.\<close>

definition reconcile_utterance :: "string \<Rightarrow> 'a CarFilters_scheme \<Rightarrow> error + 'a CarFilters_scheme" where
  "reconcile_utterance text currentFilters =
     (case parseVoiceCommand text of
        Inl err \<Rightarrow> Inl err
      | Inr command \<Rightarrow> Inr (applyEntitiesToFilters (entities command) currentFilters))"

section \<open>Properties of the matcher\<close>

text \<open>
  The number of rounds given to a repetition is enough: more rounds change nothing, and
  the repetition satisfies the equation of a greedy \<^verbatim>\<open>*\<close> whose rounds must consume
  input.
\<close>

lemma star_rounds_Suc:
  "length (fst st) \<le> n \<Longrightarrow> star_rounds f (Suc n) st = star_rounds f n st"
proof (induction n arbitrary: st)
  case 0
  then show ?case by simp
next
  case (Suc n)
  have "(\<lambda>st'. if length (fst st') < length (fst st) then star_rounds f (Suc n) st' else [])
      = (\<lambda>st'. if length (fst st') < length (fst st) then star_rounds f n st' else [])"
  proof
    fix st'
    show "(if length (fst st') < length (fst st) then star_rounds f (Suc n) st' else [])
        = (if length (fst st') < length (fst st) then star_rounds f n st' else [])"
    proof (cases "length (fst st') < length (fst st)")
      case True
      with Suc.prems have "length (fst st') \<le> n" by simp
      with Suc.IH True show ?thesis by simp
    next
      case False
      then show ?thesis by simp
    qed
  qed
  then show ?case by (simp del: star_rounds.simps add: star_rounds.simps(2) [of f "Suc n"] star_rounds.simps(2) [of f n])
qed

lemma star_rounds_enough:
  "length (fst st) \<le> n \<Longrightarrow> star_rounds f n st = star_rounds f (length (fst st)) st"
proof (induction n)
  case 0
  then show ?case by simp
next
  case (Suc n)
  show ?case
  proof (cases "length (fst st) \<le> n")
    case True
    with Suc.IH star_rounds_Suc [of st n f] show ?thesis by simp
  next
    case False
    with Suc.prems have "length (fst st) = Suc n" by simp
    then show ?thesis by simp
  qed
qed

lemma rx_run_Star:
  "rx_run (Star r) st =
     concat (map (\<lambda>st'. if length (fst st') < length (fst st) then rx_run (Star r) st' else [])
                 (rx_run r st)) @ [st]"
proof (cases "length (fst st)")
  case 0
  then show ?thesis by simp
next
  case (Suc n)
  have "(\<lambda>st'. if length (fst st') < length (fst st) then star_rounds (rx_run r) n st' else [])
      = (\<lambda>st'. if length (fst st') < length (fst st) then rx_run (Star r) st' else [])"
  proof
    fix st'
    show "(if length (fst st') < length (fst st) then star_rounds (rx_run r) n st' else [])
      = (if length (fst st') < length (fst st) then rx_run (Star r) st' else [])"
    proof (cases "length (fst st') < length (fst st)")
      case True
      with Suc have "length (fst st') \<le> n" by simp
      from star_rounds_enough [OF this] True show ?thesis by simp
    next
      case False
      then show ?thesis by simp
    qed
  qed
  with Suc show ?thesis by simp
qed

text \<open>Group 1 is set after every match of a price or mileage pattern.\<close>

lemma keeps_star_rounds: "keeps_group i f \<Longrightarrow> keeps_group i (star_rounds f n)"
proof (induction n)
  case 0
  show ?case by (simp add: keeps_group_def)
next
  case (Suc n)
  then show ?case
    unfolding keeps_group_def by (auto split: if_splits)
qed

lemma keeps_rep_rounds: "keeps_group i f \<Longrightarrow> keeps_group i (rep_rounds f n)"
proof (induction n)
  case 0
  show ?case by (simp add: keeps_group_def)
next
  case (Suc n)
  then show ?case
    unfolding keeps_group_def by auto
qed

lemma keeps_rx_run: "keeps_group i (rx_run r)"
proof (induction r)
  case (Seq r1 r2)
  then show ?case unfolding keeps_group_def by auto
next
  case (Star r)
  from keeps_star_rounds [OF Star] show ?case
    unfolding keeps_group_def by auto
next
  case (Rep n r)
  from keeps_rep_rounds [OF Rep] show ?case
    unfolding keeps_group_def by auto
qed (auto simp add: keeps_group_def split: list.splits if_splits)

lemma sets_group_Grp: "sets_group i (Grp i r)"
  by (auto simp add: sets_group_def)

lemma sets_group_Seq1: "sets_group i r1 \<Longrightarrow> sets_group i (Seq r1 r2)"
  using keeps_rx_run [of i r2] unfolding sets_group_def keeps_group_def by auto

lemma sets_group_Seq2: "sets_group i r2 \<Longrightarrow> sets_group i (Seq r1 r2)"
  unfolding sets_group_def by auto

lemma str_match_run:
  "str_match s r = Some m \<Longrightarrow> \<exists>st st'. st' \<in> set (rx_run r st) \<and> m = snd st'"
proof (induction s r rule: str_match.induct)
  case (1 s r)
  show ?case
  proof (cases "rx_run r (s, Map.empty)")
    case Nil
    with "1.prems" obtain c cs where s: "s = c # cs" and "str_match cs r = Some m"
      by (cases s) auto
    with "1.IH" Nil show ?thesis by blast
  next
    case (Cons st sts)
    with "1.prems" have "m = snd st" by simp
    moreover from Cons have "st \<in> set (rx_run r (s, Map.empty))" by simp
    ultimately show ?thesis by blast
  qed
qed

lemma sets_group_match: "sets_group i r \<Longrightarrow> str_match s r = Some m \<Longrightarrow> \<exists>w. m i = Some w"
  using str_match_run [of s r m] unfolding sets_group_def by auto

lemma sets_group_amount: "sets_group i (amount i)" by (simp add: amount_def sets_group_Grp)
lemma sets_group_grouped: "sets_group i (grouped i)" by (simp add: grouped_def sets_group_Grp)

lemma price_sets_group: "\<forall>p \<in> set PRICE_PATTERNS. sets_group 1 p"
  by (simp add: PRICE_PATTERNS_def sets_group_Seq1 sets_group_Seq2 sets_group_amount)

lemma mileage_sets_group: "\<forall>p \<in> set MILEAGE_PATTERNS. sets_group 1 p"
  by (simp add: MILEAGE_PATTERNS_def sets_group_Seq1 sets_group_Seq2 sets_group_grouped)

section \<open>Properties of the extraction engine\<close>

subsection \<open>The parser returns\<close>

lemma price_loop_total:
  "\<forall>p \<in> set ps. sets_group 1 p \<Longrightarrow> \<exists>r. price_loop text ps = Inr r"
proof (induction ps)
  case Nil
  show ?case by simp
next
  case (Cons p ps)
  show ?case
  proof (cases "str_match text p")
    case None
    with Cons show ?thesis by simp
  next
    case (Some m)
    from Cons.prems have "sets_group 1 p" by simp
    from sets_group_match [OF this Some] obtain w where w: "m 1 = Some w" ..
    show ?thesis
    proof (cases "m 2")
      case None
      with Some w show ?thesis by (simp add: parseNumber_def truthy_def)
    next
      case (Some v)
      with \<open>str_match text p = Some m\<close> w show ?thesis by (simp add: parseNumber_def)
    qed
  qed
qed

lemma mileage_loop_total:
  "\<forall>p \<in> set ps. sets_group 1 p \<Longrightarrow> \<exists>r. mileage_loop text ps = Inr r"
proof (induction ps)
  case Nil
  show ?case by simp
next
  case (Cons p ps)
  show ?case
  proof (cases "str_match text p")
    case None
    with Cons show ?thesis by simp
  next
    case (Some m)
    from Cons.prems have "sets_group 1 p" by simp
    from sets_group_match [OF this Some] obtain w where w: "m 1 = Some w" ..
    with Some show ?thesis by (simp add: parseNumber_def)
  qed
qed

lemma extractPriceRange_total: "\<exists>r. extractPriceRange text = Inr r"
  unfolding extractPriceRange_def by (rule price_loop_total [OF price_sets_group])

lemma extractMileage_total: "\<exists>r. extractMileage text = Inr r"
  unfolding extractMileage_def by (rule mileage_loop_total [OF mileage_sets_group])

lemma parseVoiceCommand_Inr:
  "\<exists>price mil. extractPriceRange (trim (toLowerCase text)) = Inr price
     \<and> extractMileage (trim (toLowerCase text)) = Inr mil
     \<and> parseVoiceCommand text =
       Inr \<lparr>intent = determineIntent (trim (toLowerCase text)) (entities_of (trim (toLowerCase text)) price mil),
            entities = entities_of (trim (toLowerCase text)) price mil,
            confidence = calculateConfidence (entities_of (trim (toLowerCase text)) price mil) (trim (toLowerCase text))\<rparr>"
proof -
  obtain price where p: "extractPriceRange (trim (toLowerCase text)) = Inr price"
    using extractPriceRange_total by blast
  obtain mil where m: "extractMileage (trim (toLowerCase text)) = Inr mil"
    using extractMileage_total by blast
  show ?thesis
    by (simp add: parseVoiceCommand_def p m entities_of_def Let_def)
qed

subsection \<open>The confidence\<close>

lemma pow2_pos: "0 < pow2 k"
  by (simp add: pow2_def)

lemma round_even_nonneg: "0 \<le> x \<Longrightarrow> 0 \<le> round_even x"
  by (auto simp add: round_even_def Let_def)

lemma double_of_nonneg: "0 \<le> x \<Longrightarrow> 0 \<le> double_of x"
  by (auto simp add: double_of_def Let_def pow2_pos round_even_nonneg less_imp_le
      intro!: mult_nonneg_nonneg)

lemma base_score_nonneg: "0 \<le> base_score n"
  unfolding base_score_def fadd_def fmul_def
  by (intro double_of_nonneg add_nonneg_nonneg mult_nonneg_nonneg) simp_all

lemma boost_loop_eq:
  "boost_loop text ks c = (if any_includes (toLowerCase text) ks then fadd c (double_of (2 / 10)) else c)"
  by (induction ks) (simp_all add: any_includes_def)

lemma calculateConfidence_eq:
  "calculateConfidence e text =
     min (if has_booster text then fadd (base_score (num_keys e)) (double_of (2 / 10))
          else base_score (num_keys e)) 1"
  by (simp add: calculateConfidence_def boost_loop_eq base_score_def has_booster_def)

lemma calculateConfidence_bounds:
  "0 \<le> calculateConfidence e text \<and> calculateConfidence e text \<le> 1"
proof -
  have "0 \<le> fadd (base_score (num_keys e)) (double_of (2 / 10))"
    unfolding fadd_def
    by (intro double_of_nonneg add_nonneg_nonneg base_score_nonneg) simp_all
  with base_score_nonneg [of "num_keys e"] show ?thesis
    by (simp add: calculateConfidence_eq)
qed

lemma base_score_3: "base_score 3 < 1 \<and> fadd (base_score 3) (double_of (2 / 10)) = 1"
  by code_simp

lemma parse_confidence:
  "\<exists>c. parseVoiceCommand text = Inr c
     \<and> confidence c = calculateConfidence (entities c) (trim (toLowerCase text))"
  using parseVoiceCommand_Inr [of "text"] by auto

text \<open>
  The scores of two concrete utterances with three entity categories, with and without
  a booster phrase, and of one with two categories and a booster phrase.
\<close>

lemma parse_need_three:
  "parseVoiceCommand ''I need a used BMW SUV'' =
     Inr \<lparr>intent = ''specify_filters'',
          entities = no_entities\<lparr>entities.makes := Some [''BMW''],
             entities.vehicleTypes := Some [''suv''],
             entities.conditions := Some [''used'']\<rparr>,
          confidence = 1\<rparr>"
  by code_simp

lemma parse_three:
  "parseVoiceCommand ''a used BMW SUV'' =
     Inr \<lparr>intent = ''specify_filters'',
          entities = no_entities\<lparr>entities.makes := Some [''BMW''],
             entities.vehicleTypes := Some [''suv''],
             entities.conditions := Some [''used'']\<rparr>,
          confidence = 3602879701896397 / 4503599627370496\<rparr>"
  by code_simp

lemma parse_two_booster:
  "map_sum id confidence (parseVoiceCommand ''find a used bmw'')
     = Inr (2026619832316723 / 2251799813685248)"
  by code_simp

text \<open>
  Claim C8. For every utterance the parser returns a command whose confidence is
  between 0 and 1: it is the smaller of 1 and the base score of the recognized
  categories, to which the bonus 0.2 is added once if the normalized utterance contains
  a booster phrase (find, search, looking for, want, need, show me), however many it
  contains. Of two utterances with three recognized categories each, one with a booster
  phrase and one without, the parser scores the one with the booster phrase strictly
  higher.
\<close>

theorem C8_confidence:
  "(\<exists>c. parseVoiceCommand text = Inr c \<and> 0 \<le> confidence c \<and> confidence c \<le> 1
        \<and> confidence c =
            min (if has_booster (trim (toLowerCase text))
                 then fadd (base_score (num_keys (entities c))) (double_of (2 / 10))
                 else base_score (num_keys (entities c))) 1)
   \<and> (parseVoiceCommand t1 = Inr c1 \<and> parseVoiceCommand t2 = Inr c2
        \<and> num_keys (entities c1) = 3 \<and> num_keys (entities c2) = 3
        \<and> has_booster (trim (toLowerCase t1)) \<and> \<not> has_booster (trim (toLowerCase t2))
      \<longrightarrow> confidence c2 < confidence c1)"
proof (intro conjI impI)
  from parse_confidence [of "text"] obtain c where c: "parseVoiceCommand text = Inr c"
    and "confidence c = calculateConfidence (entities c) (trim (toLowerCase text))"
    by blast
  with calculateConfidence_bounds [of "entities c" "trim (toLowerCase text)"]
  have "0 \<le> confidence c \<and> confidence c \<le> 1
        \<and> confidence c =
            min (if has_booster (trim (toLowerCase text))
                 then fadd (base_score (num_keys (entities c))) (double_of (2 / 10))
                 else base_score (num_keys (entities c))) 1"
    by (simp add: calculateConfidence_eq)
  with c show "\<exists>c. parseVoiceCommand text = Inr c \<and> 0 \<le> confidence c \<and> confidence c \<le> 1
        \<and> confidence c =
            min (if has_booster (trim (toLowerCase text))
                 then fadd (base_score (num_keys (entities c))) (double_of (2 / 10))
                 else base_score (num_keys (entities c))) 1"
    by blast
next
  assume h: "parseVoiceCommand t1 = Inr c1 \<and> parseVoiceCommand t2 = Inr c2
        \<and> num_keys (entities c1) = 3 \<and> num_keys (entities c2) = 3
        \<and> has_booster (trim (toLowerCase t1)) \<and> \<not> has_booster (trim (toLowerCase t2))"
  from parse_confidence [of t1] h
  have c1: "confidence c1 = calculateConfidence (entities c1) (trim (toLowerCase t1))" by auto
  from parse_confidence [of t2] h
  have c2: "confidence c2 = calculateConfidence (entities c2) (trim (toLowerCase t2))" by auto
  from h base_score_3 show "confidence c2 < confidence c1"
    by (simp add: c1 c2 calculateConfidence_eq)
qed

theorem C8_confidence_witness:
  "parseVoiceCommand ''I need a used BMW SUV'' =
     Inr \<lparr>intent = ''specify_filters'',
          entities = no_entities\<lparr>entities.makes := Some [''BMW''],
             entities.vehicleTypes := Some [''suv''],
             entities.conditions := Some [''used'']\<rparr>,
          confidence = 1\<rparr>
   \<and> parseVoiceCommand ''a used BMW SUV'' =
     Inr \<lparr>intent = ''specify_filters'',
          entities = no_entities\<lparr>entities.makes := Some [''BMW''],
             entities.vehicleTypes := Some [''suv''],
             entities.conditions := Some [''used'']\<rparr>,
          confidence = 3602879701896397 / 4503599627370496\<rparr>
   \<and> num_keys (no_entities\<lparr>entities.makes := Some [''BMW''],
             entities.vehicleTypes := Some [''suv''],
             entities.conditions := Some [''used'']\<rparr>) = 3
   \<and> has_booster (trim (toLowerCase ''I need a used BMW SUV''))
   \<and> \<not> has_booster (trim (toLowerCase ''a used BMW SUV''))
   \<and> (3602879701896397 / 4503599627370496 :: rat) < 1"
proof -
  let ?e = "no_entities\<lparr>entities.makes := Some [''BMW''],
             entities.vehicleTypes := Some [''suv''],
             entities.conditions := Some [''used'']\<rparr>"
  let ?c1 = "\<lparr>intent = ''specify_filters'', entities = ?e, confidence = 1\<rparr>"
  let ?c2 = "\<lparr>intent = ''specify_filters'', entities = ?e,
              confidence = 3602879701896397 / 4503599627370496\<rparr>"
  have p1: "parseVoiceCommand ''I need a used BMW SUV'' = Inr ?c1"
    by (rule parse_need_three)
  have p2: "parseVoiceCommand ''a used BMW SUV'' = Inr ?c2"
    by (rule parse_three)
  have k: "num_keys ?e = 3"
    by (simp add: num_keys_def count_some_def no_entities_def)
  have b1: "has_booster (trim (toLowerCase ''I need a used BMW SUV''))"
    by code_simp
  have b2: "\<not> has_booster (trim (toLowerCase ''a used BMW SUV''))"
    by code_simp
  from C8_confidence [of _ "''I need a used BMW SUV''" ?c1 "''a used BMW SUV''" ?c2]
  have "parseVoiceCommand ''I need a used BMW SUV'' = Inr ?c1
        \<and> parseVoiceCommand ''a used BMW SUV'' = Inr ?c2
        \<and> num_keys (entities ?c1) = 3 \<and> num_keys (entities ?c2) = 3
        \<and> has_booster (trim (toLowerCase ''I need a used BMW SUV''))
        \<and> \<not> has_booster (trim (toLowerCase ''a used BMW SUV''))
      \<longrightarrow> confidence ?c2 < confidence ?c1"
    by (rule conjunct2)
  moreover have "num_keys (entities ?c1) = 3" and "num_keys (entities ?c2) = 3"
    using k by simp_all
  ultimately have "confidence ?c2 < confidence ?c1"
    using p1 p2 b1 b2 by blast
  then have "(3602879701896397 / 4503599627370496 :: rat) < 1"
    by simp
  with p1 p2 k b1 b2 show ?thesis
    by blast
qed

subsection \<open>Nothing recognized\<close>

lemma any_includes_append:
  "any_includes text (xs @ ys) = (any_includes text xs \<or> any_includes text ys)"
  by (simp add: any_includes_def)

lemma found_values_none:
  "\<not> any_includes text (map fst table) \<Longrightarrow> found_values text table = []"
  by (induction table) (simp_all add: any_includes_def)

lemma extractKeywords_none:
  "\<not> any_includes text (map fst table) \<Longrightarrow> extractKeywords text table = []"
  by (simp add: extractKeywords_def found_values_none uniq_def)

lemma extractFeatures_none:
  "\<not> any_includes text (map fst KEYWORD_features) \<Longrightarrow> extractFeatures text = []"
  by (simp add: extractFeatures_def found_values_none)

lemma price_loop_none: "\<not> list_ex (matches text) ps \<Longrightarrow> price_loop text ps = Inr None"
  by (induction ps) (auto simp add: matches_def split: option.splits)

lemma year_loop_none: "\<not> list_ex (matches text) ps \<Longrightarrow> year_loop text ps = None"
  by (induction ps) (auto simp add: matches_def split: option.splits)

lemma mileage_loop_none: "\<not> list_ex (matches text) ps \<Longrightarrow> mileage_loop text ps = Inr None"
  by (induction ps) (auto simp add: matches_def split: option.splits)

lemma num_keys_none: "num_keys no_entities = 0"
  by (simp add: num_keys_def no_entities_def count_some_def)

lemma nothing_matches_parse:
  assumes "nothing_matches (trim (toLowerCase text))"
  shows "parseVoiceCommand text =
     Inr \<lparr>intent = ''unknown'', entities = no_entities,
          confidence = calculateConfidence no_entities (trim (toLowerCase text))\<rparr>"
proof -
  let ?n = "trim (toLowerCase text)"
  from assms have kw: "\<not> any_includes ?n all_keywords"
    and pat: "\<not> list_ex (matches ?n) all_patterns"
    by (simp_all add: nothing_matches_def)
  from kw have tables:
    "\<not> any_includes ?n (map fst KEYWORD_makes)"
    "\<not> any_includes ?n (map fst KEYWORD_vehicleTypes)"
    "\<not> any_includes ?n (map fst KEYWORD_conditions)"
    "\<not> any_includes ?n (map fst KEYWORD_fuelTypes)"
    "\<not> any_includes ?n (map fst KEYWORD_transmissions)"
    "\<not> any_includes ?n (map fst KEYWORD_driveTypes)"
    "\<not> any_includes ?n (map fst KEYWORD_features)"
    "\<not> any_includes ?n (map fst KEYWORD_colors)"
    and rules: "\<not> any_includes ?n (concat (map fst intent_rules))"
    by (simp_all add: all_keywords_def any_includes_append)
  from pat have
    price: "extractPriceRange ?n = Inr None" and
    year: "extractYearRange ?n = None" and
    mil: "extractMileage ?n = Inr None"
    by (simp_all add: all_patterns_def extractPriceRange_def extractYearRange_def
        extractMileage_def price_loop_none year_loop_none mileage_loop_none)
  have ents: "entities_of ?n None None = no_entities"
    by (simp add: entities_of_def no_entities_def tables extractKeywords_none
        extractFeatures_none year nonempty_def)
  from rules have "determineIntent ?n no_entities = ''unknown''"
    by (simp add: determineIntent_def intent_rules_def any_includes_def num_keys_none)
  with parseVoiceCommand_Inr [of "text"] price mil ents show ?thesis by auto
qed

text \<open>
  Claim C9. The parser returns a command for every input string; no call in it throws.
  When no keyword and no pattern matches the normalized text, the command has the empty
  entities object and the intent \<^verbatim>\<open>unknown\<close>.
\<close>

theorem C9_parse_total:
  "(\<exists>c. parseVoiceCommand text = Inr c)
   \<and> (nothing_matches (trim (toLowerCase text)) \<longrightarrow>
        (\<exists>c. parseVoiceCommand text = Inr c \<and> entities c = no_entities \<and> intent c = ''unknown''))"
  using parseVoiceCommand_Inr [of "text"] nothing_matches_parse [of "text"] by auto

theorem C9_parse_total_witness:
  "nothing_matches (trim (toLowerCase ''Hello''))
   \<and> (\<exists>c. parseVoiceCommand ''Hello'' = Inr c \<and> entities c = no_entities \<and> intent c = ''unknown'')"
proof -
  have h: "nothing_matches (trim (toLowerCase ''Hello''))" by code_simp
  with C9_parse_total [of "''Hello''"] show ?thesis by blast
qed

subsection \<open>Concrete utterances\<close>

lemma parse_scenario:
  "parseVoiceCommand ''I need a used BMW SUV under 40000 euros with heated seats'' =
     Inr \<lparr>intent = ''specify_filters'',
          entities = no_entities\<lparr>entities.makes := Some [''BMW''],
             entities.vehicleTypes := Some [''suv''],
             entities.conditions := Some [''used''],
             features := Some [(heatedSeats, True)],
             priceRange := Some (only_max (Num 40000)),
             yearRange := Some (only_min (Num 4000)),
             mileage := Some (only_max (Num 40000))\<rparr>,
          confidence = 1\<rparr>"
  by code_simp

text \<open>
  Claim C2, as the code has it. The intent is the label of the first keyword group, in
  the order search, compare, details, reset, confirm, deny, of which the text contains a
  keyword; without any, it is \<^verbatim>\<open>specify_filters\<close> if an entity was extracted and
  \<^verbatim>\<open>unknown\<close> otherwise. "yes, show me BMWs" contains the search keyword "show" and is
  classified \<^verbatim>\<open>search_cars\<close>, as is "find a BMW and yes I'm sure"; "yes, a BMW", with
  no keyword of an earlier group, is classified \<^verbatim>\<open>confirm\<close>, not \<^verbatim>\<open>specify_filters\<close>.
\<close>

theorem C2_intent_priority:
  "determineIntent text e =
     first_rule text intent_rules (if num_keys e > 0 then ''specify_filters'' else ''unknown'')
   \<and> map_sum id intent (parseVoiceCommand ''yes, show me BMWs'') = Inr ''search_cars''
   \<and> map_sum id intent (parseVoiceCommand ''find a BMW and yes I'm sure'') = Inr ''search_cars''
   \<and> map_sum id intent (parseVoiceCommand ''yes, a BMW'') = Inr ''confirm''"
proof (intro conjI)
  show "determineIntent text e =
     first_rule text intent_rules (if num_keys e > 0 then ''specify_filters'' else ''unknown'')"
    by (simp add: determineIntent_def intent_rules_def)
qed code_simp+

text \<open>
  Claim C2 as stated fails: the intent of "yes, show me BMWs" is not \<^verbatim>\<open>confirm\<close>.
\<close>

theorem C2_intent_priority_counterexample:
  "map_sum id intent (parseVoiceCommand ''yes, show me BMWs'') \<noteq> Inr ''confirm''"
  by code_simp

text \<open>
  Claim C4. Without a direction keyword a number is an upper bound for the price and
  the mileage and a lower bound for the year: "under 30000" and "30000" both give the
  price range \<^verbatim>\<open>{max: 30000}\<close>, "30000 km" gives the mileage \<^verbatim>\<open>{max: 30000}\<close>, and
  "2020" gives the year range \<^verbatim>\<open>{min: 2020}\<close>.
\<close>

theorem C4_default_direction:
  "map_sum id priceRange (map_sum id entities (parseVoiceCommand ''under 30000''))
     = Inr (Some \<lparr>min_r = None, max_r = Some (Num 30000)\<rparr>)
   \<and> map_sum id priceRange (map_sum id entities (parseVoiceCommand ''30000''))
     = Inr (Some \<lparr>min_r = None, max_r = Some (Num 30000)\<rparr>)
   \<and> map_sum id mileage (map_sum id entities (parseVoiceCommand ''30000 km''))
     = Inr (Some \<lparr>min_r = None, max_r = Some (Num 30000)\<rparr>)
   \<and> map_sum id yearRange (map_sum id entities (parseVoiceCommand ''2020''))
     = Inr (Some \<lparr>min_r = Some (Num 2020), max_r = None\<rparr>)"
  by code_simp

text \<open>
  Claim C5. The three numeric extractors read the same number: for "under 40000" the
  entities are exactly the price range \<^verbatim>\<open>{max: 40000}\<close>, the mileage \<^verbatim>\<open>{max: 40000}\<close>
  (the unit of the mileage pattern is optional) and the year range \<^verbatim>\<open>{min: 4000}\<close> (the
  year pattern matches the first four digits).
\<close>

theorem C5_extractors_overlap:
  "map_sum id entities (parseVoiceCommand ''under 40000'') =
     Inr (no_entities\<lparr>priceRange := Some \<lparr>min_r = None, max_r = Some (Num 40000)\<rparr>,
                      yearRange := Some \<lparr>min_r = Some (Num 4000), max_r = None\<rparr>,
                      mileage := Some \<lparr>min_r = None, max_r = Some (Num 40000)\<rparr>\<rparr>)"
  by code_simp

section \<open>Properties of the reconciliation\<close>

lemma foldl_put_flag:
  "foldl put_flag u fs = u\<lparr>flags := flags u ++ map_of (rev fs)\<rparr>"
proof (induction fs arbitrary: u)
  case Nil
  show ?case by simp
next
  case (Cons kv fs)
  have "flags (put_flag u kv) ++ map_of (rev fs) = flags u ++ map_of (rev fs @ [kv])"
    by (cases kv) (auto simp add: put_flag_def fun_eq_iff map_add_def split: option.splits)
  then show ?case
    by (simp add: Cons.IH) (simp add: put_flag_def)
qed

lemma put_features_eq: "put_features e u = u\<lparr>flags := flags u ++ written (features e)\<rparr>"
  by (cases "features e") (simp_all add: put_features_def written_def foldl_put_flag)

lemma put_priceRange_eq:
  "put_priceRange e u = u\<lparr>priceMin := lower (priceRange e) (priceMin u),
                           priceMax := upper (priceRange e) (priceMax u)\<rparr>"
  by (cases "priceRange e") (simp_all add: put_priceRange_def lower_def upper_def)

lemma put_yearRange_eq:
  "put_yearRange e u = u\<lparr>yearMin := lower (yearRange e) (yearMin u),
                          yearMax := upper (yearRange e) (yearMax u)\<rparr>"
  by (cases "yearRange e") (simp_all add: put_yearRange_def lower_def upper_def)

lemma put_mileage_eq:
  "put_mileage e u = u\<lparr>mileageMin := lower (mileage e) (mileageMin u),
                        mileageMax := upper (mileage e) (mileageMax u)\<rparr>"
  by (cases "mileage e") (simp_all add: put_mileage_def lower_def upper_def)

lemmas put_eqs =
  put_makes_def put_vehicleTypes_def put_conditions_def put_fuelTypes_def
  put_transmissions_def put_driveTypes_def put_colors_def put_features_eq
  put_priceRange_eq put_yearRange_eq put_mileage_eq

text \<open>The returned object, property by property.\<close>

lemma applyEntitiesToFilters_eq:
  "applyEntitiesToFilters e F =
     F\<lparr>makes := spread (entities.makes e) (makes F),
       vehicleTypes := spread (entities.vehicleTypes e) (vehicleTypes F),
       conditions := spread (entities.conditions e) (conditions F),
       fuelTypes := spread (entities.fuelTypes e) (fuelTypes F),
       transmissions := spread (entities.transmissions e) (transmissions F),
       driveTypes := spread (entities.driveTypes e) (driveTypes F),
       exteriorColors := spread (colors e) (exteriorColors F),
       flags := flags F ++ written (features e),
       priceMin := lower (priceRange e) (priceMin F),
       priceMax := upper (priceRange e) (priceMax F),
       yearMin := lower (yearRange e) (yearMin F),
       yearMax := upper (yearRange e) (yearMax F),
       mileageMin := lower (mileage e) (mileageMin F),
       mileageMax := upper (mileage e) (mileageMax F)\<rparr>"
  by (simp add: applyEntitiesToFilters_def statements_def put_eqs)

lemma lower_idem: "lower r (lower r x) = lower r x"
  by (simp add: lower_def bound_def split: option.splits)

lemma upper_idem: "upper r (upper r x) = upper r x"
  by (simp add: upper_def bound_def split: option.splits)

lemma spread_None: "spread None x = x"
  by (simp add: spread_def)

lemma map_add_twice: "(m ++ f) ++ f = m ++ f"
  by (simp add: fun_eq_iff map_add_def split: option.splits)


lemma lower_absent: "absent_min r \<Longrightarrow> lower r x = x"
  by (simp add: absent_min_def lower_def bound_def split: option.splits)

lemma upper_absent: "absent_max r \<Longrightarrow> upper r x = x"
  by (simp add: absent_max_def upper_def bound_def split: option.splits)

lemma written_absent: "k \<notin> feature_keys fs \<Longrightarrow> (m ++ written fs) k = m k"
proof (cases fs)
  case None
  then show ?thesis by (simp add: written_def)
next
  case (Some kvs)
  assume "k \<notin> feature_keys fs"
  with Some have "k \<notin> fst ` set kvs" by (simp add: feature_keys_def)
  then have "map_of (rev kvs) k = None" by (simp add: map_of_eq_None_iff)
  with Some show ?thesis by (simp add: written_def map_add_def)
qed

text \<open>
  Claim C6. Merging does not remove duplicates from a list property: the entities
  \<^verbatim>\<open>{makes: ["BMW"]}\<close>, applied twice starting from the empty filter object, leave a
  \<^verbatim>\<open>makes\<close> array of two entries, both \<^verbatim>\<open>"BMW"\<close>.
\<close>

theorem C6_makes_accumulate:
  "makes (applyEntitiesToFilters (no_entities\<lparr>entities.makes := Some [''BMW'']\<rparr>)
            (applyEntitiesToFilters (no_entities\<lparr>entities.makes := Some [''BMW'']\<rparr>)
               empty_filters))
   = Some [''BMW'', ''BMW'']"
  by (simp add: applyEntitiesToFilters_eq no_entities_def empty_filters_def spread_def
      or_empty_def)

text \<open>
  Claim C7. For every filter object and every entities object that has only numeric
  ranges (\<^verbatim>\<open>priceRange\<close>, \<^verbatim>\<open>yearRange\<close>, \<^verbatim>\<open>mileage\<close>) and feature flags, that is, none
  of the seven list categories, merging the entities a second time changes nothing.
\<close>

theorem C7_scalar_idempotent:
  assumes "entities.makes e = None" and "entities.vehicleTypes e = None"
    and "entities.conditions e = None" and "entities.fuelTypes e = None"
    and "entities.transmissions e = None" and "entities.driveTypes e = None"
    and "colors e = None"
  shows "applyEntitiesToFilters e (applyEntitiesToFilters e F) = applyEntitiesToFilters e F"
  using assms
  by (simp add: applyEntitiesToFilters_eq lower_idem upper_idem spread_None map_add_twice)

theorem C7_scalar_idempotent_witness:
  "entities.makes (no_entities\<lparr>features := Some [(sunroof, True)],
                               priceRange := Some (only_max (Num 30000))\<rparr>) = None
   \<and> applyEntitiesToFilters
        (no_entities\<lparr>features := Some [(sunroof, True)],
                      priceRange := Some (only_max (Num 30000))\<rparr>)
        (applyEntitiesToFilters
           (no_entities\<lparr>features := Some [(sunroof, True)],
                         priceRange := Some (only_max (Num 30000))\<rparr>)
           (empty_filters\<lparr>makes := Some [''Audi''], priceMax := Some (Num 50000)\<rparr>))
     = applyEntitiesToFilters
         (no_entities\<lparr>features := Some [(sunroof, True)],
                       priceRange := Some (only_max (Num 30000))\<rparr>)
         (empty_filters\<lparr>makes := Some [''Audi''], priceMax := Some (Num 50000)\<rparr>)"
  using C7_scalar_idempotent
    [of "no_entities\<lparr>features := Some [(sunroof, True)],
                      priceRange := Some (only_max (Num 30000))\<rparr>"
        "empty_filters\<lparr>makes := Some [''Audi''], priceMax := Some (Num 50000)\<rparr>"]
  by (simp add: no_entities_def)

subsection \<open>The argument object is not written\<close>

lemma foldl_exec:
  "foldl (exec a) h stmts =
     h\<lparr>cells := (cells h)(a := foldl (\<lambda>u stmt. stmt u) (cells h a) stmts)\<rparr>"
  by (induction stmts arbitrary: h) (simp_all add: exec_def)

lemma applyEntitiesToFilters_ref_eq:
  "applyEntitiesToFilters_ref e currentFilters h =
     (next_free h,
      h\<lparr>cells := (cells h)(next_free h := applyEntitiesToFilters e (cells h currentFilters)),
        next_free := Suc (next_free h)\<rparr>)"
  by (simp add: applyEntitiesToFilters_ref_def alloc_def foldl_exec applyEntitiesToFilters_def)

text \<open>
  Claim C10. \<^verbatim>\<open>applyEntitiesToFilters\<close> returns a new object and writes no object that
  existed before the call, in particular not its argument \<^verbatim>\<open>currentFilters\<close>. In the
  returned object every property whose category is absent from the entities is as in
  the argument: a list property when its category is absent, a bound of a range when
  the range or that bound of it is absent, a feature flag when the features object has
  no such key, and every property that the function does not name.
\<close>

theorem C10_reconcile_frame:
  assumes "applyEntitiesToFilters_ref e currentFilters h = (updatedFilters, h')"
    and "currentFilters < next_free h"
  shows "updatedFilters \<noteq> currentFilters \<and> next_free h \<le> updatedFilters
    \<and> cells h' currentFilters = cells h currentFilters
    \<and> (\<forall>a. a \<noteq> updatedFilters \<longrightarrow> cells h' a = cells h a)
    \<and> cells h' updatedFilters = applyEntitiesToFilters e (cells h currentFilters)
    \<and> (entities.makes e = None \<longrightarrow>
         makes (cells h' updatedFilters) = makes (cells h currentFilters))
    \<and> (entities.vehicleTypes e = None \<longrightarrow>
         vehicleTypes (cells h' updatedFilters) = vehicleTypes (cells h currentFilters))
    \<and> (entities.conditions e = None \<longrightarrow>
         conditions (cells h' updatedFilters) = conditions (cells h currentFilters))
    \<and> (entities.fuelTypes e = None \<longrightarrow>
         fuelTypes (cells h' updatedFilters) = fuelTypes (cells h currentFilters))
    \<and> (entities.transmissions e = None \<longrightarrow>
         transmissions (cells h' updatedFilters) = transmissions (cells h currentFilters))
    \<and> (entities.driveTypes e = None \<longrightarrow>
         driveTypes (cells h' updatedFilters) = driveTypes (cells h currentFilters))
    \<and> (colors e = None \<longrightarrow>
         exteriorColors (cells h' updatedFilters) = exteriorColors (cells h currentFilters))
    \<and> (\<forall>k. k \<notin> feature_keys (features e) \<longrightarrow>
         flags (cells h' updatedFilters) k = flags (cells h currentFilters) k)
    \<and> (absent_min (priceRange e) \<longrightarrow>
         priceMin (cells h' updatedFilters) = priceMin (cells h currentFilters))
    \<and> (absent_max (priceRange e) \<longrightarrow>
         priceMax (cells h' updatedFilters) = priceMax (cells h currentFilters))
    \<and> (absent_min (yearRange e) \<longrightarrow>
         yearMin (cells h' updatedFilters) = yearMin (cells h currentFilters))
    \<and> (absent_max (yearRange e) \<longrightarrow>
         yearMax (cells h' updatedFilters) = yearMax (cells h currentFilters))
    \<and> (absent_min (mileage e) \<longrightarrow>
         mileageMin (cells h' updatedFilters) = mileageMin (cells h currentFilters))
    \<and> (absent_max (mileage e) \<longrightarrow>
         mileageMax (cells h' updatedFilters) = mileageMax (cells h currentFilters))
    \<and> CarFilters.more (cells h' updatedFilters) = CarFilters.more (cells h currentFilters)"
proof -
  let ?F = "cells h currentFilters"
  from assms(1) have upd: "updatedFilters = next_free h"
    and h': "h' = h\<lparr>cells := (cells h)(next_free h := applyEntitiesToFilters e ?F),
        next_free := Suc (next_free h)\<rparr>"
    by (auto simp add: applyEntitiesToFilters_ref_eq)
  have new: "cells h' updatedFilters = applyEntitiesToFilters e ?F"
    by (simp add: upd h')
  have old: "\<forall>a. a \<noteq> updatedFilters \<longrightarrow> cells h' a = cells h a"
    by (simp add: upd h')
  have neq: "updatedFilters \<noteq> currentFilters"
    using assms(2) by (simp add: upd)
  show ?thesis
    unfolding new
    using neq old
    by (simp add: upd applyEntitiesToFilters_eq spread_None lower_absent upper_absent
        written_absent)
qed

theorem C10_reconcile_frame_witness:
  "applyEntitiesToFilters_ref
     (no_entities\<lparr>features := Some [(sunroof, True)], priceRange := Some (only_max (Num 30000))\<rparr>)
     0
     \<lparr>cells = (\<lambda>a. empty_filters\<lparr>makes := Some [''Audi''], priceMin := Some (Num 1000),
                                  flags := [heatedSeats \<mapsto> True]\<rparr>),
      next_free = 1\<rparr>
   = (1, \<lparr>cells = (\<lambda>a. empty_filters\<lparr>makes := Some [''Audi''], priceMin := Some (Num 1000),
                                  flags := [heatedSeats \<mapsto> True]\<rparr>)
                  (1 := empty_filters\<lparr>makes := Some [''Audi''], priceMin := Some (Num 1000),
                                  priceMax := Some (Num 30000),
                                  flags := [heatedSeats \<mapsto> True, sunroof \<mapsto> True]\<rparr>),
          next_free = 2\<rparr>)
   \<and> (0::nat) < 1
   \<and> entities.makes (no_entities\<lparr>features := Some [(sunroof, True)], priceRange := Some (only_max (Num 30000))\<rparr>) = None
   \<and> absent_min (priceRange (no_entities\<lparr>features := Some [(sunroof, True)], priceRange := Some (only_max (Num 30000))\<rparr>))
   \<and> heatedSeats \<notin> feature_keys (features (no_entities\<lparr>features := Some [(sunroof, True)], priceRange := Some (only_max (Num 30000))\<rparr>))
   \<and> makes (empty_filters\<lparr>makes := Some [''Audi''], priceMin := Some (Num 1000),
                                  priceMax := Some (Num 30000),
                                  flags := [heatedSeats \<mapsto> True, sunroof \<mapsto> True]\<rparr>) = Some [''Audi'']"
proof -
  have run: "applyEntitiesToFilters_ref
     (no_entities\<lparr>features := Some [(sunroof, True)], priceRange := Some (only_max (Num 30000))\<rparr>)
     0
     \<lparr>cells = (\<lambda>a. empty_filters\<lparr>makes := Some [''Audi''], priceMin := Some (Num 1000),
                                  flags := [heatedSeats \<mapsto> True]\<rparr>),
      next_free = 1\<rparr>
   = (1, \<lparr>cells = (\<lambda>a. empty_filters\<lparr>makes := Some [''Audi''], priceMin := Some (Num 1000),
                                  flags := [heatedSeats \<mapsto> True]\<rparr>)
                  (1 := empty_filters\<lparr>makes := Some [''Audi''], priceMin := Some (Num 1000),
                                  priceMax := Some (Num 30000),
                                  flags := [heatedSeats \<mapsto> True, sunroof \<mapsto> True]\<rparr>),
          next_free = 2\<rparr>)"
    by (simp add: applyEntitiesToFilters_ref_eq applyEntitiesToFilters_eq no_entities_def
        empty_filters_def spread_def lower_def upper_def bound_def only_max_def written_def)
  show ?thesis
    using C10_reconcile_frame [OF run] run
    by (simp add: applyEntitiesToFilters_eq no_entities_def
        empty_filters_def spread_def lower_def upper_def bound_def only_max_def written_def
        absent_min_def feature_keys_def)
qed


section \<open>The end-to-end scenario\<close>

lemma reconcile_scenario:
  "reconcile_utterance ''I need a used BMW SUV under 40000 euros with heated seats'' empty_filters =
     Inr (empty_filters\<lparr>makes := Some [''BMW''], vehicleTypes := Some [''suv''],
            conditions := Some [''used''], priceMax := Some (Num 40000),
            yearMin := Some (Num 4000), mileageMax := Some (Num 40000),
            flags := [heatedSeats \<mapsto> True]\<rparr>)"
  by (simp add: reconcile_utterance_def parse_scenario applyEntitiesToFilters_eq no_entities_def
      empty_filters_def spread_def or_empty_def lower_def upper_def bound_def only_max_def
      only_min_def written_def)

text \<open>
  Claim C1, as the code has it. Parsing "I need a used BMW SUV under 40000 euros with
  heated seats" and merging the entities into the empty filter object gives exactly
  \<^verbatim>\<open>{makes: ["BMW"], vehicleTypes: ["suv"], conditions: ["used"], priceMax: 40000,
  yearMin: 4000, mileageMax: 40000, heatedSeats: true}\<close>: the year and the mileage
  extractor read the number of the price as well. The next question computed from that
  object asks about the transmission.
\<close>

theorem C1_scenario:
  "reconcile_utterance ''I need a used BMW SUV under 40000 euros with heated seats'' empty_filters
   = Inr (empty_filters\<lparr>makes := Some [''BMW''], vehicleTypes := Some [''suv''],
            conditions := Some [''used''], priceMax := Some (Num 40000),
            yearMin := Some (Num 4000), mileageMax := Some (Num 40000),
            flags := [heatedSeats \<mapsto> True]\<rparr>)
   \<and> map_sum id generateNextQuestion
         (reconcile_utterance ''I need a used BMW SUV under 40000 euros with heated seats''
            empty_filters)
     = Inr ''Do you prefer automatic or manual transmission?''"
  unfolding reconcile_scenario
  by (simp add: generateNextQuestion_def empty_filters_def none_collected_def falsy_num_def)

text \<open>
  Claim C1 as stated fails: the filter object is not the one with only \<^verbatim>\<open>makes\<close>,
  \<^verbatim>\<open>vehicleTypes\<close>, \<^verbatim>\<open>conditions\<close>, \<^verbatim>\<open>priceMax\<close> and \<^verbatim>\<open>heatedSeats\<close> set.
\<close>

theorem C1_scenario_counterexample:
  "reconcile_utterance ''I need a used BMW SUV under 40000 euros with heated seats'' empty_filters
   \<noteq> Inr (empty_filters\<lparr>makes := Some [''BMW''], vehicleTypes := Some [''suv''],
            conditions := Some [''used''], priceMax := Some (Num 40000),
            flags := [heatedSeats \<mapsto> True]\<rparr>)"
  unfolding reconcile_scenario by (simp add: empty_filters_def)


section \<open>Properties of the dialogue controller\<close>

lemma parse_yes:
  "parseVoiceCommand ''yes'' =
     Inr \<lparr>intent = ''confirm'', entities = no_entities, confidence = 1 / 2\<rparr>"
  by code_simp

lemma handleVoiceInput_yes:
  "handleVoiceInput ''yes'' collecting =
     Inr (collecting,
          addMessage user (Text ''yes'')
          # say ''Perfect! Let me search for cars matching your criteria.''
          @ [setTimeout
               [onSearch, onClose,
                toast ''Search Complete'' ''Found cars matching your voice search criteria!'']
               1500])"
  by (simp add: handleVoiceInput_def parse_yes processVoiceCommand_def handleConfirmation_def)

text \<open>
  Claim C3, as the code has it. On a command with the intent \<^verbatim>\<open>confirm\<close> the
  controller says its acknowledgement and schedules, 1500 ms later, the external search
  trigger \<^verbatim>\<open>onSearch\<close> followed by \<^verbatim>\<open>onClose\<close>; it leaves the conversation state, and
  with it \<^verbatim>\<open>currentStep\<close>, as it was. No handler assigns \<^verbatim>\<open>done\<close>: after any command
  \<^verbatim>\<open>currentStep\<close> is what it was before or \<^verbatim>\<open>collecting_preferences\<close>.
\<close>

theorem C3_confirm:
  "(intent command = ''confirm'' \<longrightarrow>
      processVoiceCommand command originalText st =
        (st, say ''Perfect! Let me search for cars matching your criteria.''
             @ [setTimeout
                  [onSearch, onClose,
                   toast ''Search Complete'' ''Found cars matching your voice search criteria!'']
                  1500]))
   \<and> (currentStep (fst (processVoiceCommand command originalText st)) = currentStep st
      \<or> currentStep (fst (processVoiceCommand command originalText st)) = ''collecting_preferences'')"
  by (simp add: processVoiceCommand_def handleConfirmation_def handleFilterSpecification_def
      handleDenial_def handleReset_def handleUnknownCommand_def collecting_def Let_def)

theorem C3_confirm_witness:
  "intent \<lparr>intent = ''confirm'', entities = no_entities, confidence = 1 / 2\<rparr> = ''confirm''
   \<and> processVoiceCommand \<lparr>intent = ''confirm'', entities = no_entities, confidence = 1 / 2\<rparr>
        ''yes'' collecting =
        (collecting, say ''Perfect! Let me search for cars matching your criteria.''
             @ [setTimeout
                  [onSearch, onClose,
                   toast ''Search Complete'' ''Found cars matching your voice search criteria!'']
                  1500])"
  using C3_confirm [of "\<lparr>intent = ''confirm'', entities = no_entities, confidence = 1 / 2\<rparr>" "''yes''" collecting]
  by simp

text \<open>
  Claim C3 as stated fails: after "yes" in the state \<^verbatim>\<open>collecting_preferences\<close> the
  step is not \<^verbatim>\<open>done\<close>.
\<close>

theorem C3_confirm_counterexample:
  "currentStep (fst (processVoiceCommand
      \<lparr>intent = ''confirm'', entities = no_entities, confidence = 1 / 2\<rparr> ''yes'' collecting))
   \<noteq> ''done''"
  by (simp add: processVoiceCommand_def handleConfirmation_def collecting_def)

end
